theory Spec2Isabelle
  imports Complex_Main
begin

section \<open>Calibrated absolute pose estimation (estimate\_calibrated\_absolute\_pose.cc)\<close>

text \<open>
  A shallow embedding of the minimal-sample pose estimator of
  \<^verbatim>\<open>src/theia/sfm/estimators/estimate_calibrated_absolute_pose.cc\<close>.

  Scalars. The source computes in IEEE \<^verbatim>\<open>double\<close>. The embedding computes in
  \<^typ>\<open>real\<close>: every finite operation is exact (no rounding, no overflow). The one
  operation of the file whose IEEE result is not a number of the reals, the division by
  a zero depth in \<^verbatim>\<open>hnormalized\<close>, is a value of its own (\<open>NonFinite\<close>): IEEE
  gives an infinity or a NaN there, and the subtraction, the squares and the sum that
  follow keep it an infinity or a NaN.

  What the exact model does not tell: \<open>Finite r\<close> gives the exact value \<open>r\<close> of the
  expression the code evaluates. The double the code returns is \<open>r\<close> up to rounding, an
  infinity where an intermediate result is beyond the range of doubles, and a NaN where
  a depth that is not zero in the reals underflows to zero. No theorem below is to be
  read as saying that the double is finite.
\<close>

subsection \<open>Eigen vectors and matrices\<close>

datatype Vector2d = Vector2d (v2x: real) (v2y: real)

datatype Vector3d = Vector3d (v3x: real) (v3y: real) (v3z: real)

text \<open>A 3x3 matrix by its coefficients \<open>m\<^sub>i\<^sub>j\<close>, row \<open>i\<close>, column \<open>j\<close>.\<close>

datatype Matrix3d = Matrix3d
  (m00: real) (m01: real) (m02: real)
  (m10: real) (m11: real) (m12: real)
  (m20: real) (m21: real) (m22: real)

text \<open>\<^verbatim>\<open>a - b\<close> on \<^verbatim>\<open>Vector3d\<close> and on \<^verbatim>\<open>Vector2d\<close>.\<close>

definition minus3 :: "Vector3d \<Rightarrow> Vector3d \<Rightarrow> Vector3d" where
  "minus3 a b = Vector3d (v3x a - v3x b) (v3y a - v3y b) (v3z a - v3z b)"

definition minus2 :: "Vector2d \<Rightarrow> Vector2d \<Rightarrow> Vector2d" where
  "minus2 a b = Vector2d (v2x a - v2x b) (v2y a - v2y b)"

text \<open>\<^verbatim>\<open>M * v\<close>: the matrix-vector product.\<close>

definition mat_vec :: "Matrix3d \<Rightarrow> Vector3d \<Rightarrow> Vector3d" where
  "mat_vec M v = Vector3d
     (m00 M * v3x v + m01 M * v3y v + m02 M * v3z v)
     (m10 M * v3x v + m11 M * v3y v + m12 M * v3z v)
     (m20 M * v3x v + m21 M * v3y v + m22 M * v3z v)"

text \<open>\<^verbatim>\<open>M.transpose()\<close> and the unary \<^verbatim>\<open>-M\<close>.\<close>

definition transpose3 :: "Matrix3d \<Rightarrow> Matrix3d" where
  "transpose3 M = Matrix3d
     (m00 M) (m10 M) (m20 M)
     (m01 M) (m11 M) (m21 M)
     (m02 M) (m12 M) (m22 M)"

definition uminus_mat :: "Matrix3d \<Rightarrow> Matrix3d" where
  "uminus_mat M = Matrix3d
     (- m00 M) (- m01 M) (- m02 M)
     (- m10 M) (- m11 M) (- m12 M)
     (- m20 M) (- m21 M) (- m22 M)"

definition uminus3 :: "Vector3d \<Rightarrow> Vector3d" where
  "uminus3 v = Vector3d (- v3x v) (- v3y v) (- v3z v)"

definition mat_mul :: "Matrix3d \<Rightarrow> Matrix3d \<Rightarrow> Matrix3d" where
  "mat_mul A B = Matrix3d
     (m00 A * m00 B + m01 A * m10 B + m02 A * m20 B)
     (m00 A * m01 B + m01 A * m11 B + m02 A * m21 B)
     (m00 A * m02 B + m01 A * m12 B + m02 A * m22 B)
     (m10 A * m00 B + m11 A * m10 B + m12 A * m20 B)
     (m10 A * m01 B + m11 A * m11 B + m12 A * m21 B)
     (m10 A * m02 B + m11 A * m12 B + m12 A * m22 B)
     (m20 A * m00 B + m21 A * m10 B + m22 A * m20 B)
     (m20 A * m01 B + m21 A * m11 B + m22 A * m21 B)
     (m20 A * m02 B + m21 A * m12 B + m22 A * m22 B)"

definition Identity3 :: Matrix3d where
  "Identity3 = Matrix3d 1 0 0  0 1 0  0 0 1"

definition determinant :: "Matrix3d \<Rightarrow> real" where
  "determinant M =
     m00 M * (m11 M * m22 M - m12 M * m21 M)
   - m01 M * (m10 M * m22 M - m12 M * m20 M)
   + m02 M * (m10 M * m21 M - m11 M * m20 M)"

text \<open>
  \<^verbatim>\<open>v.hnormalized()\<close>: the first two coefficients divided by the third. Where the
  third is zero, IEEE division gives an infinity or a NaN in both coefficients: \<open>None\<close>.
\<close>

definition hnormalized :: "Vector3d \<Rightarrow> Vector2d option" where
  "hnormalized v =
     (if v3z v = 0 then None else Some (Vector2d (v3x v / v3z v) (v3y v / v3z v)))"

text \<open>\<^verbatim>\<open>v.squaredNorm()\<close>.\<close>

definition squaredNorm :: "Vector2d \<Rightarrow> real" where
  "squaredNorm v = v2x v * v2x v + v2y v * v2y v"

subsection \<open>Correspondences, poses, the estimator\<close>

text \<open>
  \<^verbatim>\<open>FeatureCorrespondence2D3D\<close> and \<^verbatim>\<open>CalibratedAbsolutePose\<close> are declared in
  headers; the fields are the ones this file reads and writes.
\<close>

record FeatureCorrespondence2D3D =
  feature :: Vector2d
  world_point :: Vector3d

record CalibratedAbsolutePose =
  rotation :: Matrix3d
  position :: Vector3d

text \<open>
  The estimator's members: the two buffers it hands to the solver (\<^verbatim>\<open>rotations\<close> and
  \<^verbatim>\<open>translations\<close>; the second name is a keyword of Isabelle, hence the suffix).
\<close>

record CalibratedAbsolutePoseEstimator =
  rotations :: "Matrix3d list"
  translations_vec :: "Vector3d list"

text \<open>What a \<^verbatim>\<open>double\<close> returned by \<^verbatim>\<open>Error\<close> can be.\<close>

datatype scalar = Finite real | NonFinite

text \<open>
  An unchecked \<^verbatim>\<open>operator[]\<close> past the end of a \<^verbatim>\<open>std::vector\<close> is undefined
  behaviour: C++ gives such a call no result, and a build may read on and return
  anything, or abort. In the model the call has the value \<open>Inl OutOfBounds\<close>, which
  stands for "undefined", not for an error that the code reports.
\<close>

datatype fault = OutOfBounds

definition at_index :: "'a list \<Rightarrow> nat \<Rightarrow> fault + 'a" where
  "at_index xs i = (if i < length xs then Inr (xs ! i) else Inl OutOfBounds)"

subsection \<open>SampleSize\<close>

text \<open>\<^verbatim>\<open>double SampleSize() const { return 3; }\<close>\<close>

definition SampleSize :: "CalibratedAbsolutePoseEstimator \<Rightarrow> real" where
  "SampleSize this = 3"

subsection \<open>Error\<close>

text \<open>
  \<^verbatim>\<open>
  const Eigen::Vector3d translated = correspondence.world_point - absolute_pose.position;
  const Eigen::Vector3d rotated = absolute_pose.rotation * translated;
  const Eigen::Vector2d reprojected_feature = rotated.hnormalized();
  const Eigen::Vector2d error = reprojected_feature - correspondence.feature;
  return error.squaredNorm();
  \<close>
\<close>

definition Error ::
  "CalibratedAbsolutePoseEstimator \<Rightarrow> FeatureCorrespondence2D3D \<Rightarrow> CalibratedAbsolutePose \<Rightarrow> scalar"
where
  "Error this correspondence absolute_pose =
     (let translated = minus3 (world_point correspondence) (position absolute_pose);
          rotated = mat_vec (rotation absolute_pose) translated
      in case hnormalized rotated of
           None \<Rightarrow> NonFinite
         | Some reprojected_feature \<Rightarrow>
             (let error = minus2 reprojected_feature (feature correspondence)
              in Finite (squaredNorm error)))"

subsection \<open>EstimateModel\<close>

text \<open>
  \<^verbatim>\<open>PoseFromThreePoints\<close> is declared in \<^verbatim>\<open>theia/sfm/pose/perspective_three_point.h\<close>
  and is a parameter here: it takes the three features, the three world points and the two
  output vectors as they are when it is called, and gives its success flag and the two
  vectors as it leaves them.
\<close>

type_synonym PoseFromThreePoints_t =
  "Vector2d list \<Rightarrow> Vector3d list \<Rightarrow> Matrix3d list \<Rightarrow> Vector3d list
     \<Rightarrow> bool \<times> Matrix3d list \<times> Vector3d list"

text \<open>
  \<^verbatim>\<open>
  for (int i = 0; i < rotations.size(); i++) {
    CalibratedAbsolutePose pose;
    pose.rotation = rotations[i];
    pose.position = -pose.rotation.transpose() * translations[i];
    absolute_poses->emplace_back(pose);
  }
  \<close>
  The unary minus binds tighter than the product: the transpose is negated, then
  multiplied. \<^verbatim>\<open>rotations[i]\<close> is in range by the loop condition; \<^verbatim>\<open>translations[i]\<close>
  is checked by nothing.
\<close>

function pose_loop ::
  "nat \<Rightarrow> Matrix3d list \<Rightarrow> Vector3d list \<Rightarrow> CalibratedAbsolutePose list
     \<Rightarrow> fault + CalibratedAbsolutePose list"
where
  "pose_loop i rots transl absolute_poses =
     (if i < length rots then
        (case at_index transl i of
           Inl f \<Rightarrow> Inl f
         | Inr t \<Rightarrow>
             (let pose_rotation = rots ! i;
                  pose_position = mat_vec (uminus_mat (transpose3 pose_rotation)) t;
                  pose = \<lparr>rotation = pose_rotation, position = pose_position\<rparr>
              in pose_loop (i + 1) rots transl (absolute_poses @ [pose])))
      else Inr absolute_poses)"
  by pat_completeness auto
termination
  by (relation "measure (\<lambda>(i, rots, transl, absolute_poses). length rots - i)") auto

declare pose_loop.simps [simp del]

text \<open>
  \<^verbatim>\<open>
  const Eigen::Vector2d features[3] = {correspondences[0].feature,
                                       correspondences[1].feature,
                                       correspondences[2].feature};
  const Eigen::Vector3d world_points[3] = {correspondences[0].world_point,
                                           correspondences[1].world_point,
                                           correspondences[2].world_point};
  auto mutable_this = const_cast<CalibratedAbsolutePoseEstimator&>(*this);
  auto &rotations = mutable_this.rotations;
  auto &translations = mutable_this.translations;
  rotations.clear();
  translations.clear();
  if (!PoseFromThreePoints(features, world_points, &rotations, &translations)) {
    return false;
  }
  for (...) { ... }   // the loop above
  return absolute_poses->size() > 0;
  \<close>
  \<^verbatim>\<open>auto\<close> drops the reference, so \<^verbatim>\<open>mutable_this\<close> is a copy of the estimator: the
  two buffers that are cleared and filled are the copy's, and the estimator itself is
  left as it was (the member function is \<^verbatim>\<open>const\<close>). The result is the returned flag
  and the contents of \<^verbatim>\<open>*absolute_poses\<close> on return; the last argument is its contents
  on entry.
\<close>

definition EstimateModel ::
  "PoseFromThreePoints_t \<Rightarrow> CalibratedAbsolutePoseEstimator \<Rightarrow> FeatureCorrespondence2D3D list
     \<Rightarrow> CalibratedAbsolutePose list \<Rightarrow> fault + (bool \<times> CalibratedAbsolutePose list)"
where
  "EstimateModel PoseFromThreePoints this correspondences absolute_poses =
     (case at_index correspondences 0 of Inl f \<Rightarrow> Inl f | Inr c0 \<Rightarrow>
     (case at_index correspondences 1 of Inl f \<Rightarrow> Inl f | Inr c1 \<Rightarrow>
     (case at_index correspondences 2 of Inl f \<Rightarrow> Inl f | Inr c2 \<Rightarrow>
        (let features = [feature c0, feature c1, feature c2];
             world_points = [world_point c0, world_point c1, world_point c2];
             mutable_this = this;
             mutable_this = mutable_this\<lparr>rotations := []\<rparr>;
             mutable_this = mutable_this\<lparr>translations_vec := []\<rparr>
         in (case PoseFromThreePoints features world_points
                    (rotations mutable_this) (translations_vec mutable_this) of
               (ok, rots, transl) \<Rightarrow>
                 if \<not> ok then Inr (False, absolute_poses)
                 else (case pose_loop 0 rots transl absolute_poses of
                         Inl f \<Rightarrow> Inl f
                       | Inr poses \<Rightarrow> Inr (length poses > 0, poses)))))))"

subsection \<open>The reusable estimator and the one-shot function\<close>

text \<open>
  \<^verbatim>\<open>RansacParameters\<close>, \<^verbatim>\<open>RansacType\<close>, \<^verbatim>\<open>RansacSummary\<close> and the engine
  \<^verbatim>\<open>SampleConsensusEstimator\<close> are declared elsewhere: they are type parameters
  (\<open>'params\<close>, \<open>'variant\<close>, \<open>'summary\<close>, \<open>'engine\<close>). The factory
  \<^verbatim>\<open>CreateAndInitializeRansacVariant\<close> and the engine's \<^verbatim>\<open>Estimate\<close> are parameters
  too. Both may read and write state outside the estimator (the engine draws random
  samples), which is threaded through as \<open>'w\<close>. \<^verbatim>\<open>Estimate\<close> gets the contents of
  \<^verbatim>\<open>*absolute_pose\<close> and \<^verbatim>\<open>*ransac_summary\<close> on entry and gives the returned flag with
  their contents on return, and the engine as it leaves it.
\<close>

type_synonym ('variant, 'params, 'engine, 'w) CreateAndInitializeRansacVariant_t =
  "'variant \<Rightarrow> 'params \<Rightarrow> CalibratedAbsolutePoseEstimator \<Rightarrow> 'w \<Rightarrow> 'engine \<times> 'w"

type_synonym ('engine, 'summary, 'w) Estimate_t =
  "'engine \<Rightarrow> FeatureCorrespondence2D3D list \<Rightarrow> CalibratedAbsolutePose \<Rightarrow> 'summary \<Rightarrow> 'w
     \<Rightarrow> (bool \<times> CalibratedAbsolutePose \<times> 'summary) \<times> 'engine \<times> 'w"

text \<open>\<^verbatim>\<open>CalibratedAbsolutePoseEstimator() {}\<close>: both vectors start empty.\<close>

definition CalibratedAbsolutePoseEstimator_ctor :: CalibratedAbsolutePoseEstimator where
  "CalibratedAbsolutePoseEstimator_ctor = \<lparr>rotations = [], translations_vec = []\<rparr>"

record 'engine ReusableCalibratedAbsolutePoseEstimatorImpl =
  absolute_pose_estimator :: CalibratedAbsolutePoseEstimator
  ransac :: 'engine

text \<open>
  \<^verbatim>\<open>
  ReusableCalibratedAbsolutePoseEstimatorImpl(const RansacParameters& ransac_params,
                                              const RansacType& ransac_type) {
    ransac = CreateAndInitializeRansacVariant(ransac_type, ransac_params, absolute_pose_estimator);
  }
  \<close>
\<close>

definition ReusableCalibratedAbsolutePoseEstimatorImpl_ctor ::
  "('variant, 'params, 'engine, 'w) CreateAndInitializeRansacVariant_t
     \<Rightarrow> 'params \<Rightarrow> 'variant \<Rightarrow> 'w \<Rightarrow> 'engine ReusableCalibratedAbsolutePoseEstimatorImpl \<times> 'w"
where
  "ReusableCalibratedAbsolutePoseEstimatorImpl_ctor CreateAndInitializeRansacVariant
       ransac_params ransac_type w =
     (let estimator = CalibratedAbsolutePoseEstimator_ctor
      in (case CreateAndInitializeRansacVariant ransac_type ransac_params estimator w of
            (engine, w') \<Rightarrow> (\<lparr>absolute_pose_estimator = estimator, ransac = engine\<rparr>, w')))"

text \<open>
  \<^verbatim>\<open>return ransac->Estimate(normalized_correspondences, absolute_pose, ransac_summary);\<close>
\<close>

definition estimate ::
  "('engine, 'summary, 'w) Estimate_t \<Rightarrow> 'engine ReusableCalibratedAbsolutePoseEstimatorImpl
     \<Rightarrow> FeatureCorrespondence2D3D list \<Rightarrow> CalibratedAbsolutePose \<Rightarrow> 'summary \<Rightarrow> 'w
     \<Rightarrow> (bool \<times> CalibratedAbsolutePose \<times> 'summary)
         \<times> 'engine ReusableCalibratedAbsolutePoseEstimatorImpl \<times> 'w"
where
  "estimate Estimate this normalized_correspondences absolute_pose ransac_summary w =
     (case Estimate (ransac this) normalized_correspondences absolute_pose ransac_summary w of
        (result, engine, w') \<Rightarrow> (result, this\<lparr>ransac := engine\<rparr>, w'))"

text \<open>
  \<^verbatim>\<open>
  return std::make_unique<ReusableCalibratedAbsolutePoseEstimatorImpl>(ransac_params, ransac_type);
  \<close>
\<close>

definition build ::
  "('variant, 'params, 'engine, 'w) CreateAndInitializeRansacVariant_t
     \<Rightarrow> 'params \<Rightarrow> 'variant \<Rightarrow> 'w \<Rightarrow> 'engine ReusableCalibratedAbsolutePoseEstimatorImpl \<times> 'w"
where
  "build CreateAndInitializeRansacVariant ransac_params ransac_type w =
     ReusableCalibratedAbsolutePoseEstimatorImpl_ctor CreateAndInitializeRansacVariant
       ransac_params ransac_type w"

text \<open>
  \<^verbatim>\<open>
  return ReusableCalibratedAbsolutePoseEstimatorImpl(ransac_params, ransac_type)
    .estimate(normalized_correspondences, absolute_pose, ransac_summary);
  \<close>
  The temporary is destroyed at the end of the statement: what is left is the result and
  the outside state.
\<close>

definition EstimateCalibratedAbsolutePose ::
  "('variant, 'params, 'engine, 'w) CreateAndInitializeRansacVariant_t
     \<Rightarrow> ('engine, 'summary, 'w) Estimate_t
     \<Rightarrow> 'params \<Rightarrow> 'variant \<Rightarrow> FeatureCorrespondence2D3D list \<Rightarrow> CalibratedAbsolutePose
     \<Rightarrow> 'summary \<Rightarrow> 'w \<Rightarrow> (bool \<times> CalibratedAbsolutePose \<times> 'summary) \<times> 'w"
where
  "EstimateCalibratedAbsolutePose CreateAndInitializeRansacVariant Estimate
       ransac_params ransac_type normalized_correspondences absolute_pose ransac_summary w =
     (case ReusableCalibratedAbsolutePoseEstimatorImpl_ctor CreateAndInitializeRansacVariant
             ransac_params ransac_type w of
        (temporary, w1) \<Rightarrow>
          (case estimate Estimate temporary normalized_correspondences absolute_pose
                  ransac_summary w1 of
             (result, temporary', w2) \<Rightarrow> (result, w2)))"

subsection \<open>The robust-estimation engine\<close>

text \<open>
  The engine and its factory are code of the repository outside this file. The next
  definitions give them as the specification describes them, so that \<open>estimate\<close> can be
  followed to the pose it returns. The outside state is the random source: a list of
  numbers still to be drawn.
\<close>

text \<open>
  Modelled from the spec: the engine's parameters (\<^verbatim>\<open>RansacParameters\<close>). "Opaque
  configuration (inlier error threshold, confidence target, iteration cap, etc.)". The
  confidence target is given by the test it induces: whether, with so many inliers of
  the retained hypothesis, among so many correspondences, after so many iterations, the
  target is reached.
\<close>

record RobustEstimationParameters =
  inlier_error_threshold :: real
  confidence_target :: "nat \<Rightarrow> nat \<Rightarrow> nat \<Rightarrow> bool"
  iteration_cap :: nat

text \<open>
  Modelled from the spec: the engine's summary (\<^verbatim>\<open>RansacSummary\<close>). "Result metadata
  (inlier indices, iterations used) produced entirely by the external engine".
\<close>

record RobustEstimationSummary =
  inlier_indices :: "nat list"
  iterations_used :: nat

text \<open>
  Modelled from the spec: the engine (\<^verbatim>\<open>SampleConsensusEstimator\<close>), "bound to the Model
  Estimator", with the parameters and the variant it was built from.
\<close>

record 'variant RobustEstimationEngine =
  engine_estimator :: CalibratedAbsolutePoseEstimator
  engine_parameters :: RobustEstimationParameters
  engine_variant :: 'variant

text \<open>
  Modelled from the spec: the factory (\<^verbatim>\<open>CreateAndInitializeRansacVariant\<close>).
  "\<^verbatim>\<open>build(variant, parameters, modelEstimator) \<rightarrow> engine\<close>".
\<close>

definition engine_build ::
  "('variant, RobustEstimationParameters, 'variant RobustEstimationEngine, nat list)
     CreateAndInitializeRansacVariant_t"
where
  "engine_build ransac_type ransac_params estimator w =
     (\<lparr>engine_estimator = estimator, engine_parameters = ransac_params,
       engine_variant = ransac_type\<rparr>, w)"

text \<open>
  Modelled from the spec: the random source of the engine's draws. The next number of
  the list; an exhausted list gives 0.
\<close>

definition next_random :: "nat list \<Rightarrow> nat \<times> nat list" where
  "next_random w = (case w of [] \<Rightarrow> (0, []) | r # w' \<Rightarrow> (r, w'))"

text \<open>
  Modelled from the spec: one of the engine's "minimal-sample draws". \<open>k\<close> correspondences
  of the data, each at a drawn number reduced modulo the number of correspondences.
\<close>

fun draw_sample :: "nat \<Rightarrow> nat list \<Rightarrow> 'a list \<Rightarrow> 'a list \<times> nat list" where
  "draw_sample 0 w data = ([], w)"
| "draw_sample (Suc k) w data =
     (case next_random w of
        (r, w') \<Rightarrow>
          (case draw_sample k w' data of
             (sample, w'') \<Rightarrow> (data ! (r mod length data) # sample, w'')))"

text \<open>
  Modelled from the spec: the engine's "hypothesis generation via the Model Estimator".
  The candidate poses \<open>EstimateModel\<close> leaves in an output vector that was empty. A call
  whose behaviour is undefined contributes no hypothesis; on the three correspondences of
  a sample that is only where the solver leaves fewer translations than rotations, which
  the solver of the specification, returning pairs, does not.
\<close>

definition hypotheses ::
  "PoseFromThreePoints_t \<Rightarrow> CalibratedAbsolutePoseEstimator \<Rightarrow> FeatureCorrespondence2D3D list
     \<Rightarrow> CalibratedAbsolutePose list"
where
  "hypotheses S estimator sample =
     (case EstimateModel S estimator sample [] of
        Inl f \<Rightarrow> []
      | Inr (ok, poses) \<Rightarrow> poses)"

text \<open>
  Modelled from the spec: the engine's "residual scoring via its scoring operation" and
  "inlier counting against the configured threshold". A correspondence is an inlier of a
  pose when \<open>Error\<close> is below the threshold; a non-finite error is below nothing.
\<close>

definition is_inlier ::
  "CalibratedAbsolutePoseEstimator \<Rightarrow> real \<Rightarrow> FeatureCorrespondence2D3D \<Rightarrow> CalibratedAbsolutePose
     \<Rightarrow> bool"
where
  "is_inlier estimator threshold correspondence pose =
     (case Error estimator correspondence pose of
        Finite r \<Rightarrow> r < threshold
      | NonFinite \<Rightarrow> False)"

text \<open>
  Modelled from the spec: the engine's inlier indices of a pose, "scores all data against
  each" hypothesis.
\<close>

definition inliers_of ::
  "CalibratedAbsolutePoseEstimator \<Rightarrow> real \<Rightarrow> FeatureCorrespondence2D3D list
     \<Rightarrow> CalibratedAbsolutePose \<Rightarrow> nat list"
where
  "inliers_of estimator threshold data pose =
     filter (\<lambda>i. is_inlier estimator threshold (data ! i) pose) [0..<length data]"

text \<open>
  Modelled from the spec: the engine "retains the best-supported hypothesis". A new
  hypothesis replaces the retained one when it has more inliers.
\<close>

definition retain ::
  "CalibratedAbsolutePoseEstimator \<Rightarrow> real \<Rightarrow> FeatureCorrespondence2D3D list
     \<Rightarrow> (CalibratedAbsolutePose \<times> nat list) option \<Rightarrow> CalibratedAbsolutePose
     \<Rightarrow> (CalibratedAbsolutePose \<times> nat list) option"
where
  "retain estimator threshold data best pose =
     (let support = inliers_of estimator threshold data pose
      in case best of
           None \<Rightarrow> Some (pose, support)
         | Some (best_pose, best_support) \<Rightarrow>
             if length best_support < length support then Some (pose, support)
             else Some (best_pose, best_support))"

text \<open>
  Modelled from the spec: the engine's loop. "Repeated minimal-sample draws, hypothesis
  generation via the Model Estimator, residual scoring via its scoring operation, inlier
  counting against the configured threshold, and confidence-based early termination or
  iteration-cap stop." When "the robust engine exhausts its iteration budget" no model
  is found. The arguments are the iterations left, the iterations used, the retained
  hypothesis with its inliers, and the random source.
\<close>

fun robust_loop ::
  "PoseFromThreePoints_t \<Rightarrow> CalibratedAbsolutePoseEstimator \<Rightarrow> RobustEstimationParameters
     \<Rightarrow> FeatureCorrespondence2D3D list \<Rightarrow> nat \<Rightarrow> nat
     \<Rightarrow> (CalibratedAbsolutePose \<times> nat list) option \<Rightarrow> nat list
     \<Rightarrow> (CalibratedAbsolutePose \<times> nat list) option \<times> nat \<times> nat list"
where
  "robust_loop S estimator params data 0 used best w = (None, used, w)"
| "robust_loop S estimator params data (Suc budget) used best w =
     (case draw_sample (nat \<lfloor>SampleSize estimator\<rfloor>) w data of
        (sample, w') \<Rightarrow>
          (let best' = foldl (retain estimator (inlier_error_threshold params) data) best
                         (hypotheses S estimator sample)
           in case best' of
                None \<Rightarrow> robust_loop S estimator params data budget (Suc used) best' w'
              | Some (pose, support) \<Rightarrow>
                  if confidence_target params (length support) (length data) (Suc used)
                  then (best', Suc used, w')
                  else robust_loop S estimator params data budget (Suc used) best' w'))"

text \<open>
  Modelled from the spec: the engine's \<^verbatim>\<open>Estimate\<close>.
  "\<^verbatim>\<open>engine.estimate(data) \<rightarrow> (model, summary, success)\<close>". It "returns failure if the
  engine cannot reach its configured confidence or inlier criteria (e.g., insufficient
  correspondences, contamination too high, or fewer than the minimal sample size
  supplied)"; on failure "no pose is produced" (the caller's pose stays as it was) and
  the "summary content is engine-defined".
\<close>

definition engine_estimate ::
  "PoseFromThreePoints_t
     \<Rightarrow> ('variant RobustEstimationEngine, RobustEstimationSummary, nat list) Estimate_t"
where
  "engine_estimate S engine data pose0 summary0 w =
     (if length data < nat \<lfloor>SampleSize (engine_estimator engine)\<rfloor>
      then ((False, pose0, summary0), engine, w)
      else (case robust_loop S (engine_estimator engine) (engine_parameters engine) data
                   (iteration_cap (engine_parameters engine)) 0 None w of
              (None, used, w') \<Rightarrow>
                ((False, pose0, \<lparr>inlier_indices = [], iterations_used = used\<rparr>), engine, w')
            | (Some (pose, support), used, w') \<Rightarrow>
                ((True, pose, \<lparr>inlier_indices = support, iterations_used = used\<rparr>), engine, w')))"

subsection \<open>Notions of the specification\<close>

text \<open>
  The candidate pose the specification asks for from a solver's pair: the rotation
  unchanged, the position \<open>- R\<^sup>T t\<close>.
\<close>

definition pose_of_solution :: "Matrix3d \<Rightarrow> Vector3d \<Rightarrow> CalibratedAbsolutePose" where
  "pose_of_solution R t = \<lparr>rotation = R, position = uminus3 (mat_vec (transpose3 R) t)\<rparr>"

text \<open>A rotation: orthonormal, with determinant \<open>+1\<close>.\<close>

definition is_rotation :: "Matrix3d \<Rightarrow> bool" where
  "is_rotation R \<longleftrightarrow> mat_mul R (transpose3 R) = Identity3 \<and> determinant R = 1"


subsection \<open>Solvers and data for concrete evaluations\<close>

text \<open>A solver that finds two solutions and one that reports failure.\<close>

definition quarter_turn :: Matrix3d where
  "quarter_turn = Matrix3d 0 (- 1) 0  1 0 0  0 0 1"

definition solver_two_solutions :: PoseFromThreePoints_t where
  "solver_two_solutions features world_points rots transl =
     (True, rots @ [Identity3, quarter_turn], transl @ [Vector3d 1 2 3, Vector3d 0 0 1])"

definition solver_no_solution :: PoseFromThreePoints_t where
  "solver_no_solution features world_points rots transl = (False, rots, transl)"

definition origin_pose :: CalibratedAbsolutePose where
  "origin_pose = \<lparr>rotation = Identity3, position = Vector3d 0 0 0\<rparr>"

definition correspondence_at :: "real \<Rightarrow> real \<Rightarrow> real \<Rightarrow> FeatureCorrespondence2D3D" where
  "correspondence_at X Y Z = \<lparr>feature = Vector2d 0 0, world_point = Vector3d X Y Z\<rparr>"

text \<open>
  Parameters for the engine (threshold 1, confident with 3 inliers, at most 2 iterations),
  three correspondences and an empty summary.
\<close>

definition sure_parameters :: RobustEstimationParameters where
  "sure_parameters =
     \<lparr>inlier_error_threshold = 1, confidence_target = (\<lambda>support n used. 3 \<le> support),
      iteration_cap = 2\<rparr>"

definition three_correspondences :: "FeatureCorrespondence2D3D list" where
  "three_correspondences =
     [correspondence_at 0 0 1, correspondence_at 1 0 1, correspondence_at 0 1 1]"

definition empty_summary :: RobustEstimationSummary where
  "empty_summary = \<lparr>inlier_indices = [], iterations_used = 0\<rparr>"

section \<open>Lemmas\<close>

subsection \<open>The loop over the solver's solutions\<close>

lemma neg_transpose_times:
  "mat_vec (uminus_mat (transpose3 R)) t = uminus3 (mat_vec (transpose3 R) t)"
  by (simp add: mat_vec_def uminus_mat_def transpose3_def uminus3_def)

lemma pose_loop_eq:
  "length rots \<le> length transl \<Longrightarrow> i \<le> length rots \<Longrightarrow>
   pose_loop i rots transl acc =
     Inr (acc @ map (\<lambda>(R, t). pose_of_solution R t) (drop i (zip rots transl)))"
proof (induction i rots transl acc rule: pose_loop.induct)
  case (1 i rots transl acc)
  show ?case
  proof (cases "i < length rots")
    case False
    with 1 show ?thesis by (simp add: pose_loop.simps)
  next
    case True
    then have it: "i < length transl" using "1.prems" by simp
    have d: "drop i (zip rots transl) = (rots ! i, transl ! i) # drop (Suc i) (zip rots transl)"
      using Cons_nth_drop_Suc[of i "zip rots transl"] True it by simp
    have p: "\<lparr>rotation = rots ! i,
               position = mat_vec (uminus_mat (transpose3 (rots ! i))) (transl ! i)\<rparr> =
             pose_of_solution (rots ! i) (transl ! i)"
      by (simp add: pose_of_solution_def neg_transpose_times)
    have "pose_loop (i + 1) rots transl (acc @ [pose_of_solution (rots ! i) (transl ! i)]) =
          Inr ((acc @ [pose_of_solution (rots ! i) (transl ! i)]) @
               map (\<lambda>(R, t). pose_of_solution R t) (drop (i + 1) (zip rots transl)))"
      using "1.IH"[OF True, of "transl ! i"] True it "1.prems" p
      by (simp add: at_index_def)
    then show ?thesis
      using True it
      by (subst pose_loop.simps) (simp add: at_index_def d p Let_def)
  qed
qed

lemma pose_loop_fault:
  "length transl < length rots \<Longrightarrow> i \<le> length transl \<Longrightarrow>
   pose_loop i rots transl acc = Inl OutOfBounds"
proof (induction i rots transl acc rule: pose_loop.induct)
  case (1 i rots transl acc)
  show ?case
  proof (cases "i < length transl")
    case False
    with 1 show ?thesis by (subst pose_loop.simps) (simp add: at_index_def)
  next
    case True
    then show ?thesis
      using "1.IH"[of "transl ! i"] "1.prems"
      by (subst pose_loop.simps) (simp add: at_index_def)
  qed
qed

lemma pose_loop_0:
  "pose_loop 0 rots transl acc =
     (if length rots \<le> length transl
      then Inr (acc @ map (\<lambda>(R, t). pose_of_solution R t) (zip rots transl))
      else Inl OutOfBounds)"
  using pose_loop_eq[of rots transl 0 acc] pose_loop_fault[of transl rots 0 acc]
  by simp

subsection \<open>EstimateModel, unfolded\<close>

lemma EstimateModel_short:
  "length cs < 3 \<Longrightarrow> EstimateModel S e cs ps = Inl OutOfBounds"
proof -
  assume "length cs < 3"
  then consider "length cs = 0" | "length cs = 1" | "length cs = 2" by linarith
  then show ?thesis
    by cases (simp_all add: EstimateModel_def at_index_def)
qed

lemma EstimateModel_sample:
  "EstimateModel S e (c0 # c1 # c2 # rest) ps =
     (case S [feature c0, feature c1, feature c2]
             [world_point c0, world_point c1, world_point c2] [] [] of
        (ok, rots, transl) \<Rightarrow>
          if \<not> ok then Inr (False, ps)
          else if length rots \<le> length transl
          then Inr (ps \<noteq> [] \<or> rots \<noteq> [],
                    ps @ map (\<lambda>(R, t). pose_of_solution R t) (zip rots transl))
          else Inl OutOfBounds)"
  by (auto simp add: EstimateModel_def at_index_def Let_def pose_loop_0 split: prod.splits)

lemma at_least_three:
  "3 \<le> length cs \<Longrightarrow> \<exists>c0 c1 c2 rest. cs = c0 # c1 # c2 # rest"
  by (cases cs; simp; cases "tl cs"; simp; cases "tl (tl cs)"; simp)

subsection \<open>Error, in terms of the camera-frame point\<close>


subsection \<open>Rotations through the engine\<close>

lemma EstimateModel_appends_solver_rotations:
  assumes "EstimateModel S e cs ps = Inr (ok, poses)"
    and "\<forall>features world_points.
           \<forall>R \<in> set (fst (snd (S features world_points [] []))). is_rotation R"
  shows "\<exists>new. poses = ps @ new \<and> (\<forall>p \<in> set new. is_rotation (rotation p))"
proof -
  have "\<not> length cs < 3"
    using assms(1) EstimateModel_short[of cs S e ps] by auto
  then obtain c0 c1 c2 rest where cs: "cs = c0 # c1 # c2 # rest"
    using at_least_three[of cs] by auto
  obtain b rots transl where s:
    "S [feature c0, feature c1, feature c2]
       [world_point c0, world_point c1, world_point c2] [] [] = (b, rots, transl)"
    by (cases "S [feature c0, feature c1, feature c2]
       [world_point c0, world_point c1, world_point c2] [] []") auto
  have r: "\<forall>R \<in> set rots. is_rotation R"
    using assms(2)[rule_format, of _ "[feature c0, feature c1, feature c2]"
        "[world_point c0, world_point c1, world_point c2]"] s by simp
  show ?thesis
  proof (cases b)
    case False
    then have "poses = ps" using assms(1) s by (simp add: cs EstimateModel_sample)
    then show ?thesis by simp
  next
    case True
    then have p: "poses = ps @ map2 pose_of_solution rots transl"
      using assms(1) s by (simp add: cs EstimateModel_sample split: if_splits)
    have "\<forall>p \<in> set (map2 pose_of_solution rots transl). is_rotation (rotation p)"
      using r by (auto simp add: pose_of_solution_def dest: set_zip_leftD)
    with p show ?thesis by blast
  qed
qed

lemma hypotheses_rotations:
  assumes "\<forall>features world_points.
           \<forall>R \<in> set (fst (snd (S features world_points [] []))). is_rotation R"
    and "h \<in> set (hypotheses S estimator sample)"
  shows "is_rotation (rotation h)"
proof (cases "EstimateModel S estimator sample []")
  case (Inl f)
  with assms(2) show ?thesis by (simp add: hypotheses_def)
next
  case (Inr r)
  obtain ok poses where r: "r = (ok, poses)" by (cases r)
  from EstimateModel_appends_solver_rotations[where S = S, OF Inr[unfolded r] assms(1)]
  have "\<forall>p \<in> set poses. is_rotation (rotation p)" by auto
  moreover have "h \<in> set poses" using assms(2) Inr r by (simp add: hypotheses_def)
  ultimately show ?thesis by blast
qed

lemma retain_cases:
  "retain estimator threshold data best h = Some (b, support) \<Longrightarrow>
   b = h \<or> (\<exists>s. best = Some (b, s))"
  by (auto simp add: retain_def Let_def split: option.splits if_splits)

lemma foldl_retain_cases:
  "foldl (retain estimator threshold data) best hs = Some (b, support) \<Longrightarrow>
   b \<in> set hs \<or> (\<exists>s. best = Some (b, s))"
proof (induction hs arbitrary: best)
  case Nil
  then show ?case by simp
next
  case (Cons h hs)
  from Cons.IH[of "retain estimator threshold data best h"] Cons.prems
  have "b \<in> set hs \<or> (\<exists>s. retain estimator threshold data best h = Some (b, s))"
    by simp
  then show ?case
    using retain_cases[of estimator threshold data best h b] by auto
qed

lemma robust_loop_rotation:
  assumes "\<forall>features world_points.
           \<forall>R \<in> set (fst (snd (S features world_points [] []))). is_rotation R"
    and "robust_loop S estimator params data budget used best w = (Some (pose, support), used', w')"
    and "\<forall>b s. best = Some (b, s) \<longrightarrow> is_rotation (rotation b)"
  shows "is_rotation (rotation pose)"
  using assms(2,3)
proof (induction budget arbitrary: used best w)
  case 0
  then show ?case by simp
next
  case (Suc budget)
  obtain sample w1 where d: "draw_sample (nat \<lfloor>SampleSize estimator\<rfloor>) w data = (sample, w1)"
    by (cases "draw_sample (nat \<lfloor>SampleSize estimator\<rfloor>) w data")
  define best' where "best' = foldl (retain estimator (inlier_error_threshold params) data) best
                         (hypotheses S estimator sample)"
  have inv: "\<forall>b s. best' = Some (b, s) \<longrightarrow> is_rotation (rotation b)"
  proof (intro allI impI)
    fix b s assume "best' = Some (b, s)"
    then have "b \<in> set (hypotheses S estimator sample) \<or> (\<exists>s. best = Some (b, s))"
      unfolding best'_def by (rule foldl_retain_cases)
    then show "is_rotation (rotation b)"
      using hypotheses_rotations[where S = S, OF assms(1)] Suc.prems(2) by blast
  qed
  show ?case
  proof (cases best')
    case None
    then have "robust_loop S estimator params data budget (Suc used) best' w1 =
               (Some (pose, support), used', w')"
      using Suc.prems(1) d by (simp add: best'_def[symmetric] Let_def)
    then show ?thesis using Suc.IH inv by blast
  next
    case (Some bs)
    obtain b s where bs: "bs = (b, s)" by (cases bs)
    show ?thesis
    proof (cases "confidence_target params (length s) (length data) (Suc used)")
      case True
      then have "best' = Some (pose, support)"
        using Suc.prems(1) d Some bs by (simp add: best'_def[symmetric] Let_def)
      then show ?thesis using inv by blast
    next
      case False
      then have "robust_loop S estimator params data budget (Suc used) best' w1 =
               (Some (pose, support), used', w')"
        using Suc.prems(1) d Some bs by (simp add: best'_def[symmetric] Let_def)
      then show ?thesis using Suc.IH inv by blast
    qed
  qed
qed

lemma engine_estimate_rotation:
  assumes "\<forall>features world_points.
           \<forall>R \<in> set (fst (snd (S features world_points [] []))). is_rotation R"
    and "engine_estimate S engine data pose0 summary0 w = ((True, pose, summary), engine', w')"
  shows "is_rotation (rotation pose)"
proof -
  have big: "\<not> length data < nat \<lfloor>SampleSize (engine_estimator engine)\<rfloor>"
    using assms(2) by (auto simp add: engine_estimate_def)
  obtain best used w1 where l:
    "robust_loop S (engine_estimator engine) (engine_parameters engine) data
       (iteration_cap (engine_parameters engine)) 0 None w = (best, used, w1)"
    by (cases "robust_loop S (engine_estimator engine) (engine_parameters engine) data
       (iteration_cap (engine_parameters engine)) 0 None w") auto
  from assms(2) big l obtain support where "best = Some (pose, support)"
    by (auto simp add: engine_estimate_def split: option.splits)
  with l show ?thesis
    using robust_loop_rotation[where S = S, OF assms(1), of "engine_estimator engine"
        "engine_parameters engine" data "iteration_cap (engine_parameters engine)" 0 None w
        pose support used w1]
    by simp
qed

subsection \<open>The engine on three correspondences\<close>

lemma draw_three:
  "draw_sample (nat \<lfloor>SampleSize e\<rfloor>) [0, 1, 2] three_correspondences =
     (three_correspondences, [])"
proof -
  have "nat \<lfloor>SampleSize e\<rfloor> = Suc (Suc (Suc 0))" by (simp add: SampleSize_def)
  then show ?thesis
    by (simp add: next_random_def three_correspondences_def)
qed

lemma hypotheses_two_solutions:
  "hypotheses solver_two_solutions e three_correspondences =
     [pose_of_solution Identity3 (Vector3d 1 2 3),
      pose_of_solution quarter_turn (Vector3d 0 0 1)]"
  by (simp add: hypotheses_def three_correspondences_def EstimateModel_sample
      solver_two_solutions_def)

lemma upt_three_correspondences:
  "[0..<length three_correspondences] = [0, Suc 0, Suc (Suc 0)]"
  by (simp add: three_correspondences_def upt_conv_Cons)

lemma inliers_first_solution:
  "inliers_of e 1 three_correspondences (pose_of_solution Identity3 (Vector3d 1 2 3)) =
     [0, 1, 2]"
  unfolding inliers_of_def upt_three_correspondences
  by (simp add: is_inlier_def three_correspondences_def
     Error_def Let_def pose_of_solution_def Identity3_def transpose3_def mat_vec_def uminus3_def
     minus3_def minus2_def hnormalized_def squaredNorm_def correspondence_at_def)

lemma inliers_second_solution_le:
  "length (inliers_of e 1 three_correspondences
             (pose_of_solution quarter_turn (Vector3d 0 0 1))) \<le> 3"
  unfolding inliers_of_def upt_three_correspondences
  by (rule order_trans[OF length_filter_le]) simp

lemma retained_first_solution:
  "foldl (retain e 1 three_correspondences) None
     [pose_of_solution Identity3 (Vector3d 1 2 3),
      pose_of_solution quarter_turn (Vector3d 0 0 1)] =
   Some (pose_of_solution Identity3 (Vector3d 1 2 3), [0, 1, 2])"
  using inliers_second_solution_le[of e]
  by (simp add: retain_def Let_def inliers_first_solution)

lemma robust_loop_three_correspondences:
  "robust_loop solver_two_solutions e sure_parameters three_correspondences
     (iteration_cap sure_parameters) 0 None [0, 1, 2] =
   (Some (pose_of_solution Identity3 (Vector3d 1 2 3), [0, 1, 2]), Suc 0, [])"
proof -
  have c: "iteration_cap sure_parameters = Suc (Suc 0)"
    by (simp add: sure_parameters_def)
  have t: "inlier_error_threshold sure_parameters = 1"
    by (simp add: sure_parameters_def)
  have g: "confidence_target sure_parameters (length [0::nat, 1, 2])
             (length three_correspondences) (Suc 0)"
    by (simp add: sure_parameters_def)
  show ?thesis
    by (simp only: c robust_loop.simps draw_three prod.case hypotheses_two_solutions t
        retained_first_solution Let_def option.case g if_True)
qed
section \<open>Residual scoring\<close>

text \<open>
  C1. For every correspondence (feature \<open>(u, v)\<close>, world point \<open>(X, Y, Z)\<close>) and every
  pose (rotation \<open>r\<^sub>i\<^sub>j\<close>, position \<open>(cx, cy, cz)\<close>), \<open>Error\<close> is the squared Euclidean
  distance between the observed feature and the predicted one, where the world point is
  first translated by the position, the difference is then rotated, and the rotated point
  is divided by its third coordinate. Where that coordinate is zero the division has no
  finite result, and neither has \<open>Error\<close>.
\<close>

theorem Error_is_squared_reprojection_error:
  "Error this
     \<lparr>feature = Vector2d u v, world_point = Vector3d X Y Z\<rparr>
     \<lparr>rotation = Matrix3d r00 r01 r02 r10 r11 r12 r20 r21 r22, position = Vector3d cx cy cz\<rparr> =
   (let tx = X - cx; ty = Y - cy; tz = Z - cz;
        px = r00 * tx + r01 * ty + r02 * tz;
        py = r10 * tx + r11 * ty + r12 * tz;
        depth = r20 * tx + r21 * ty + r22 * tz
    in if depth = 0 then NonFinite
       else Finite ((px / depth - u)\<^sup>2 + (py / depth - v)\<^sup>2))"
  by (simp add: Error_def Let_def minus3_def minus2_def mat_vec_def hnormalized_def
      squaredNorm_def power2_eq_square)




section \<open>Hypothesis generation\<close>

text \<open>
  C3, as the code has it. \<open>EstimateModel\<close> has no check of the number of
  correspondences: it reads the elements 0, 1 and 2 with the unchecked \<^verbatim>\<open>operator[]\<close>.
  The behaviour of the call is undefined, by a read out of bounds (the value
  \<open>Inl OutOfBounds\<close> of the model), exactly when fewer than 3 correspondences are supplied,
  or when, with at least 3, the solver succeeds and leaves fewer translations than
  rotations. In every other case the call is defined and returns a flag and the poses.
\<close>

theorem EstimateModel_out_of_bounds_iff:
  "EstimateModel S e cs ps = Inl OutOfBounds \<longleftrightarrow>
     length cs < 3 \<or>
     (3 \<le> length cs \<and>
      (case S [feature (cs ! 0), feature (cs ! 1), feature (cs ! 2)]
              [world_point (cs ! 0), world_point (cs ! 1), world_point (cs ! 2)] [] [] of
         (ok, rots, transl) \<Rightarrow> ok \<and> length transl < length rots))"
proof (cases "length cs < 3")
  case True
  then show ?thesis by (simp add: EstimateModel_short)
next
  case False
  then obtain c0 c1 c2 rest where cs: "cs = c0 # c1 # c2 # rest"
    using at_least_three[of cs] by auto
  show ?thesis
    unfolding cs EstimateModel_sample
    by (auto split: prod.splits)
qed

text \<open>
  C3, as stated, fails: on the empty list and on a list of two correspondences the call
  reads out of bounds, so its behaviour is undefined; the code does not see to it that
  an empty candidate set is returned.
\<close>

theorem EstimateModel_too_few_correspondences_faults:
  "EstimateModel solver_no_solution CalibratedAbsolutePoseEstimator_ctor [] [] = Inl OutOfBounds \<and>
   EstimateModel solver_two_solutions CalibratedAbsolutePoseEstimator_ctor
     [correspondence_at 0 0 1, correspondence_at 1 0 1] [] = Inl OutOfBounds"
  by (simp add: EstimateModel_def at_index_def)

text \<open>
  C4. On a sample of 3 correspondences for which the solver succeeds with \<open>k \<le> 4\<close>
  pairs of a rotation and a translation, \<open>EstimateModel\<close> appends exactly one pose per
  pair, in the solver's order, each with the solver's rotation and the position
  \<open>- R\<^sup>T t\<close>: \<open>k\<close> poses, at most 4. The flag tells whether the output vector is
  non-empty.
\<close>

theorem EstimateModel_one_pose_per_solution:
  assumes "S [feature c0, feature c1, feature c2]
             [world_point c0, world_point c1, world_point c2] [] [] = (True, rots, transl)"
    and "length transl = length rots"
    and "length rots \<le> 4"
  shows "EstimateModel S e [c0, c1, c2] ps =
           Inr (ps \<noteq> [] \<or> rots \<noteq> [], ps @ map2 pose_of_solution rots transl) \<and>
         length (map2 pose_of_solution rots transl) = length rots \<and>
         length (map2 pose_of_solution rots transl) \<le> 4"
  using assms by (simp add: EstimateModel_sample)

text \<open>Two solutions give two poses: \<open>- I\<^sup>T (1, 2, 3)\<close> and \<open>- Q\<^sup>T (0, 0, 1)\<close>.\<close>

theorem EstimateModel_one_pose_per_solution_witness:
  "EstimateModel solver_two_solutions CalibratedAbsolutePoseEstimator_ctor
     [correspondence_at 0 0 1, correspondence_at 1 0 1, correspondence_at 0 1 1] [] =
   Inr (True, [\<lparr>rotation = Identity3, position = Vector3d (- 1) (- 2) (- 3)\<rparr>,
               \<lparr>rotation = quarter_turn, position = Vector3d 0 0 (- 1)\<rparr>])"
proof -
  have s: "solver_two_solutions
        [feature (correspondence_at 0 0 1), feature (correspondence_at 1 0 1),
         feature (correspondence_at 0 1 1)]
        [world_point (correspondence_at 0 0 1), world_point (correspondence_at 1 0 1),
         world_point (correspondence_at 0 1 1)] [] [] =
      (True, [Identity3, quarter_turn], [Vector3d 1 2 3, Vector3d 0 0 1])"
    by (simp add: solver_two_solutions_def)
  show ?thesis
    using s EstimateModel_one_pose_per_solution[of solver_two_solutions
        "correspondence_at 0 0 1" "correspondence_at 1 0 1" "correspondence_at 0 1 1"
        "[Identity3, quarter_turn]" "[Vector3d 1 2 3, Vector3d 0 0 1]"
        CalibratedAbsolutePoseEstimator_ctor "[]"]
    by (simp add: pose_of_solution_def Identity3_def quarter_turn_def transpose3_def
        mat_vec_def uminus3_def)
qed

section \<open>Minimal sample size\<close>

text \<open>
  C5. \<open>SampleSize\<close> is 3 for every estimator instance, whatever its buffers hold.
\<close>

theorem SampleSize_is_3: "SampleSize this = 3"
  by (simp add: SampleSize_def)

section \<open>No solution\<close>

text \<open>
  C6. On a sample of 3 correspondences for which the solver reports no solution (its flag
  is false), \<open>EstimateModel\<close> returns normally, with the flag false and the output vector
  as it was on entry: no pose is produced, and an empty vector stays empty.
\<close>

theorem EstimateModel_no_solution:
  assumes "\<not> fst (S [feature c0, feature c1, feature c2]
                    [world_point c0, world_point c1, world_point c2] [] [])"
  shows "EstimateModel S e [c0, c1, c2] ps = Inr (False, ps)"
  using assms by (auto simp add: EstimateModel_sample split: prod.splits)

text \<open>With the solver that reports failure, an empty output vector stays empty.\<close>

theorem EstimateModel_no_solution_witness:
  "EstimateModel solver_no_solution CalibratedAbsolutePoseEstimator_ctor
     [correspondence_at 0 0 1, correspondence_at 0 0 2, correspondence_at 0 0 3] [] =
   Inr (False, [])"
  using EstimateModel_no_solution[of solver_no_solution
      "correspondence_at 0 0 1" "correspondence_at 0 0 2" "correspondence_at 0 0 3"
      CalibratedAbsolutePoseEstimator_ctor "[]"]
  by (simp add: solver_no_solution_def)

section \<open>The one-shot function\<close>

text \<open>
  C7. For all parameters, variants, correspondences, initial contents of the outputs and
  outside state, \<open>EstimateCalibratedAbsolutePose\<close> gives the result (flag, pose, summary)
  and the outside state of \<open>build\<close> followed by one call of \<open>estimate\<close>, whatever the
  factory and the engine are.
\<close>

theorem one_shot_is_build_then_estimate:
  "EstimateCalibratedAbsolutePose CreateAndInitializeRansacVariant Estimate
     ransac_params ransac_type normalized_correspondences absolute_pose ransac_summary w =
   (case build CreateAndInitializeRansacVariant ransac_params ransac_type w of
      (estimator, w1) \<Rightarrow>
        (case estimate Estimate estimator normalized_correspondences absolute_pose
                ransac_summary w1 of
           (result, estimator', w2) \<Rightarrow> (result, w2)))"
  by (simp add: EstimateCalibratedAbsolutePose_def build_def)

section \<open>Independence of the estimator's state\<close>

text \<open>
  C8. The results of \<open>EstimateModel\<close> and of \<open>Error\<close> are functions of their arguments
  and do not depend on what the estimator's buffers hold: two estimators in any two
  states give the same flag and poses for the same solver, correspondences and output
  vector, and the same error for the same correspondence and pose.
\<close>

theorem results_independent_of_estimator_state:
  "EstimateModel S e1 cs ps = EstimateModel S e2 cs ps \<and> Error e1 c p = Error e2 c p"
proof -
  have "EstimateModel S e1 cs ps = EstimateModel S e2 cs ps"
  proof (cases "length cs < 3")
    case True
    then show ?thesis by (simp add: EstimateModel_short)
  next
    case False
    then obtain c0 c1 c2 rest where "cs = c0 # c1 # c2 # rest"
      using at_least_three[of cs] by auto
    then show ?thesis by (simp add: EstimateModel_sample)
  qed
  moreover have "Error e1 c p = Error e2 c p"
    by (simp add: Error_def)
  ultimately show ?thesis by simp
qed

section \<open>Rotations\<close>

text \<open>
  C9. Assume that the solver, called with empty buffers, leaves only rotations
  (orthonormal, of determinant 1) in its rotation vector. Then every pose that
  \<open>EstimateModel\<close> appends to the output vector has a rotation; and hence every pose that
  \<open>estimate\<close> returns with success, on any reusable estimator that holds the engine of
  the specification, has a rotation. (Without success no pose is produced.)
\<close>

theorem hypotheses_and_final_pose_are_rotations:
  assumes "\<forall>features world_points.
           \<forall>R \<in> set (fst (snd (S features world_points [] []))). is_rotation R"
  shows "(\<forall>ok poses. EstimateModel S e cs ps = Inr (ok, poses) \<longrightarrow>
            (\<exists>new. poses = ps @ new \<and> (\<forall>p \<in> set new. is_rotation (rotation p)))) \<and>
         (\<forall>pose summary reusable' w'.
            estimate (engine_estimate S) reusable data pose0 summary0 w =
              ((True, pose, summary), reusable', w') \<longrightarrow>
            is_rotation (rotation pose))"
proof (intro conjI allI impI)
  fix ok poses
  assume "EstimateModel S e cs ps = Inr (ok, poses)"
  then show "\<exists>new. poses = ps @ new \<and> (\<forall>p \<in> set new. is_rotation (rotation p))"
    using assms by (rule EstimateModel_appends_solver_rotations)
next
  fix pose summary reusable' w'
  assume a: "estimate (engine_estimate S) reusable data pose0 summary0 w =
              ((True, pose, summary), reusable', w')"
  obtain res engine' w1 where r:
    "engine_estimate S (ransac reusable) data pose0 summary0 w = (res, engine', w1)"
    by (cases "engine_estimate S (ransac reusable) data pose0 summary0 w") auto
  with a have "res = (True, pose, summary)" by (simp add: estimate_def)
  with r show "is_rotation (rotation pose)"
    using engine_estimate_rotation[where S = S, OF assms] by blast
qed

text \<open>
  With the solver of two solutions: the two poses of \<open>EstimateModel\<close> have rotations, and
  so has the pose that \<open>estimate\<close> returns after one iteration, with all three
  correspondences as inliers.
\<close>

theorem hypotheses_and_final_pose_are_rotations_witness:
  "EstimateModel solver_two_solutions CalibratedAbsolutePoseEstimator_ctor
     three_correspondences [] =
     Inr (True, [pose_of_solution Identity3 (Vector3d 1 2 3),
                 pose_of_solution quarter_turn (Vector3d 0 0 1)]) \<and>
   is_rotation (rotation (pose_of_solution Identity3 (Vector3d 1 2 3))) \<and>
   is_rotation (rotation (pose_of_solution quarter_turn (Vector3d 0 0 1))) \<and>
   estimate (engine_estimate solver_two_solutions)
     (fst (build engine_build sure_parameters () [])) three_correspondences origin_pose
     empty_summary [0, 1, 2] =
     ((True, \<lparr>rotation = Identity3, position = Vector3d (- 1) (- 2) (- 3)\<rparr>,
       \<lparr>inlier_indices = [0, 1, 2], iterations_used = 1\<rparr>),
      fst (build engine_build sure_parameters () []), []) \<and>
   is_rotation (rotation \<lparr>rotation = Identity3, position = Vector3d (- 1) (- 2) (- 3)\<rparr>)"
proof -
  have r: "EstimateModel solver_two_solutions CalibratedAbsolutePoseEstimator_ctor
     three_correspondences [] =
     Inr (True, [pose_of_solution Identity3 (Vector3d 1 2 3),
                 pose_of_solution quarter_turn (Vector3d 0 0 1)])"
    by (simp add: three_correspondences_def EstimateModel_sample solver_two_solutions_def)
  have q: "estimate (engine_estimate solver_two_solutions)
     (fst (build engine_build sure_parameters () [])) three_correspondences origin_pose
     empty_summary [0, 1, 2] =
     ((True, \<lparr>rotation = Identity3, position = Vector3d (- 1) (- 2) (- 3)\<rparr>,
       \<lparr>inlier_indices = [0, 1, 2], iterations_used = 1\<rparr>),
      fst (build engine_build sure_parameters () []), [])"
  proof -
    have p: "pose_of_solution Identity3 (Vector3d 1 2 3) =
             \<lparr>rotation = Identity3, position = Vector3d (- 1) (- 2) (- 3)\<rparr>"
      by (simp add: pose_of_solution_def Identity3_def transpose3_def mat_vec_def uminus3_def)
    have l: "\<not> length three_correspondences < nat \<lfloor>SampleSize e\<rfloor>" for e
      by (simp add: three_correspondences_def SampleSize_def)
    show ?thesis
      using robust_loop_three_correspondences[of CalibratedAbsolutePoseEstimator_ctor]
      by (simp add: estimate_def build_def ReusableCalibratedAbsolutePoseEstimatorImpl_ctor_def
          engine_build_def engine_estimate_def l p)
  qed
  have h: "\<forall>features world_points.
      \<forall>R \<in> set (fst (snd (solver_two_solutions features world_points [] []))). is_rotation R"
    by (simp add: solver_two_solutions_def is_rotation_def Identity3_def quarter_turn_def
        mat_mul_def transpose3_def determinant_def)
  note t = hypotheses_and_final_pose_are_rotations[where S = solver_two_solutions, OF h,
      where e = CalibratedAbsolutePoseEstimator_ctor and cs = three_correspondences
        and ps = "[]" and reusable = "fst (build engine_build sure_parameters () [])"
        and data = three_correspondences and ?pose0.0 = origin_pose
        and ?summary0.0 = empty_summary and w = "[0, 1, 2]"]
  from t r obtain new where
    "[pose_of_solution Identity3 (Vector3d 1 2 3),
      pose_of_solution quarter_turn (Vector3d 0 0 1)] = [] @ new"
    and "\<forall>p \<in> set new. is_rotation (rotation p)"
    by blast
  then have a: "is_rotation (rotation (pose_of_solution Identity3 (Vector3d 1 2 3))) \<and>
             is_rotation (rotation (pose_of_solution quarter_turn (Vector3d 0 0 1)))"
    by auto
  from t q have b:
    "is_rotation (rotation \<lparr>rotation = Identity3, position = Vector3d (- 1) (- 2) (- 3)\<rparr>)"
    by blast
  from r q a b show ?thesis by simp
qed

section \<open>Only the first three correspondences count\<close>

text \<open>
  C10. Two lists of at least 3 correspondences that agree on their first three elements
  give the same result: the flag, the poses, or the out-of-bounds access of the loop.
\<close>

theorem EstimateModel_first_three_only:
  assumes "3 \<le> length cs" and "3 \<le> length cs'" and "take 3 cs = take 3 cs'"
  shows "EstimateModel S e cs ps = EstimateModel S e cs' ps"
proof -
  obtain c0 c1 c2 rest where cs: "cs = c0 # c1 # c2 # rest"
    using at_least_three[OF assms(1)] by auto
  obtain d0 d1 d2 rest' where cs': "cs' = d0 # d1 # d2 # rest'"
    using at_least_three[OF assms(2)] by auto
  have "c0 = d0 \<and> c1 = d1 \<and> c2 = d2"
    using assms(3) by (simp add: cs cs' numeral_3_eq_3)
  then show ?thesis
    by (simp add: cs cs' EstimateModel_sample)
qed

text \<open>A list of four and a list of five correspondences with the same first three.\<close>

theorem EstimateModel_first_three_only_witness:
  "take 3 [correspondence_at 0 0 1, correspondence_at 1 0 1, correspondence_at 0 1 1,
           correspondence_at 5 5 5] =
   take 3 [correspondence_at 0 0 1, correspondence_at 1 0 1, correspondence_at 0 1 1,
           correspondence_at 7 8 9, correspondence_at 2 2 2] \<and>
   EstimateModel solver_two_solutions CalibratedAbsolutePoseEstimator_ctor
     [correspondence_at 0 0 1, correspondence_at 1 0 1, correspondence_at 0 1 1,
      correspondence_at 5 5 5] [] =
   EstimateModel solver_two_solutions CalibratedAbsolutePoseEstimator_ctor
     [correspondence_at 0 0 1, correspondence_at 1 0 1, correspondence_at 0 1 1,
      correspondence_at 7 8 9, correspondence_at 2 2 2] []"
proof -
  have t: "take 3 [correspondence_at 0 0 1, correspondence_at 1 0 1, correspondence_at 0 1 1,
           correspondence_at 5 5 5] =
   take 3 [correspondence_at 0 0 1, correspondence_at 1 0 1, correspondence_at 0 1 1,
           correspondence_at 7 8 9, correspondence_at 2 2 2]"
    by (simp add: numeral_3_eq_3)
  have "EstimateModel solver_two_solutions CalibratedAbsolutePoseEstimator_ctor
     [correspondence_at 0 0 1, correspondence_at 1 0 1, correspondence_at 0 1 1,
      correspondence_at 5 5 5] [] =
   EstimateModel solver_two_solutions CalibratedAbsolutePoseEstimator_ctor
     [correspondence_at 0 0 1, correspondence_at 1 0 1, correspondence_at 0 1 1,
      correspondence_at 7 8 9, correspondence_at 2 2 2] []"
    by (rule EstimateModel_first_three_only[OF _ _ t]) simp_all
  with t show ?thesis by simp
qed

end
